theory Spec2Isabelle
  imports Complex_Main "HOL-Library.Word" "HOL-Library.Monad_Syntax"
begin

section \<open>JavaScript numbers\<close>

text \<open>
  A JavaScript \<^verbatim>\<open>number\<close> is modelled as an exact rational, the two infinities or NaN.
  The arithmetic follows IEEE-754 on the special values (a division by zero gives an
  infinity or NaN and never raises; NaN compares false with everything). Rounding of
  finite results and the sign of zero are not modelled.
\<close>

datatype number = Num rat | PosInf | NegInf | NaN

fun neg :: "number \<Rightarrow> number" where
  "neg (Num a) = Num (- a)"
| "neg PosInf = NegInf"
| "neg NegInf = PosInf"
| "neg NaN = NaN"

fun flip_if :: "bool \<Rightarrow> number \<Rightarrow> number" where
  "flip_if b x = (if b then neg x else x)"

instantiation number :: "{zero, plus, minus, times, inverse, ord}"
begin

definition zero_number :: number where
  "zero_number = Num 0"

fun plus_number :: "number \<Rightarrow> number \<Rightarrow> number" where
  "plus_number NaN _ = NaN"
| "plus_number _ NaN = NaN"
| "plus_number (Num a) (Num b) = Num (a + b)"
| "plus_number PosInf NegInf = NaN"
| "plus_number NegInf PosInf = NaN"
| "plus_number PosInf _ = PosInf"
| "plus_number _ PosInf = PosInf"
| "plus_number NegInf _ = NegInf"
| "plus_number _ NegInf = NegInf"

definition minus_number :: "number \<Rightarrow> number \<Rightarrow> number" where
  "minus_number x y = x + neg y"

fun times_number :: "number \<Rightarrow> number \<Rightarrow> number" where
  "times_number NaN _ = NaN"
| "times_number _ NaN = NaN"
| "times_number (Num a) (Num b) = Num (a * b)"
| "times_number (Num a) y = (if a = 0 then NaN else flip_if (a < 0) y)"
| "times_number x (Num b) = (if b = 0 then NaN else flip_if (b < 0) x)"
| "times_number PosInf y = y"
| "times_number NegInf y = neg y"

fun divide_number :: "number \<Rightarrow> number \<Rightarrow> number" where
  "divide_number NaN _ = NaN"
| "divide_number _ NaN = NaN"
| "divide_number (Num a) (Num b) =
     (if b = 0 then (if a = 0 then NaN else if 0 < a then PosInf else NegInf)
      else Num (a / b))"
| "divide_number (Num a) _ = Num 0"
| "divide_number x (Num b) = flip_if (b < 0) x"
| "divide_number _ _ = NaN"

definition inverse_number :: "number \<Rightarrow> number" where
  "inverse_number x = divide (Num 1) x"

fun less_number :: "number \<Rightarrow> number \<Rightarrow> bool" where
  "less_number NaN _ = False"
| "less_number _ NaN = False"
| "less_number (Num a) (Num b) = (a < b)"
| "less_number PosInf _ = False"
| "less_number _ PosInf = True"
| "less_number _ NegInf = False"
| "less_number NegInf _ = True"

fun less_eq_number :: "number \<Rightarrow> number \<Rightarrow> bool" where
  "less_eq_number NaN _ = False"
| "less_eq_number _ NaN = False"
| "less_eq_number (Num a) (Num b) = (a \<le> b)"
| "less_eq_number _ PosInf = True"
| "less_eq_number PosInf _ = False"
| "less_eq_number NegInf _ = True"
| "less_eq_number _ NegInf = False"

instance ..

end

definition isNaN :: "number \<Rightarrow> bool" where
  "isNaN x = (x = NaN)"

definition isFinite :: "number \<Rightarrow> bool" where
  "isFinite x = (case x of Num _ \<Rightarrow> True | _ \<Rightarrow> False)"

section \<open>JavaScript strings\<close>

text \<open>
  A JavaScript string is a sequence of 16-bit code units. An ASCII literal is written
  \<open>str ''...''\<close>. \<open>Number\<close>, the builtin conversion of a string to a number, is not
  modelled: the functions that call it take it as the parameter \<open>toNumber\<close>.
\<close>

type_synonym code_unit = "16 word"

type_synonym jsstring = "code_unit list"

definition str :: "string \<Rightarrow> jsstring" where
  "str s = map of_char s"

text \<open>The class \<^verbatim>\<open>\s\<close> of a regular expression; \<^verbatim>\<open>trim\<close> strips the same code units.\<close>

definition isWhiteSpace :: "code_unit \<Rightarrow> bool" where
  "isWhiteSpace c \<longleftrightarrow>
     c = 0x09 \<or> c = 0x0A \<or> c = 0x0B \<or> c = 0x0C \<or> c = 0x0D \<or> c = 0x20 \<or> c = 0xA0
     \<or> c = 0x1680 \<or> (0x2000 \<le> c \<and> c \<le> 0x200A) \<or> c = 0x2028 \<or> c = 0x2029
     \<or> c = 0x202F \<or> c = 0x205F \<or> c = 0x3000 \<or> c = 0xFEFF"

text \<open>The class \<^verbatim>\<open>\d\<close>.\<close>

definition isDigit :: "code_unit \<Rightarrow> bool" where
  "isDigit c \<longleftrightarrow> 0x30 \<le> c \<and> c \<le> 0x39"

text \<open>
  \<^verbatim>\<open>s.replace(/[...]/g, rep)\<close> for a pattern that matches one code unit of a class:
  every match is replaced.
\<close>

definition replaceAll :: "(code_unit \<Rightarrow> bool) \<Rightarrow> jsstring \<Rightarrow> jsstring \<Rightarrow> jsstring" where
  "replaceAll cls rep s = concat (map (\<lambda>c. if cls c then rep else [c]) s)"

text \<open>\<^verbatim>\<open>s.replace(c, rep)\<close> for a one-character string pattern: the first match only.\<close>

definition replaceFirst :: "code_unit \<Rightarrow> jsstring \<Rightarrow> jsstring \<Rightarrow> jsstring" where
  "replaceFirst c rep s =
     takeWhile (\<lambda>x. x \<noteq> c) s
       @ (case dropWhile (\<lambda>x. x \<noteq> c) s of [] \<Rightarrow> [] | _ # rest \<Rightarrow> rep @ rest)"

definition includesChar :: "code_unit \<Rightarrow> jsstring \<Rightarrow> bool" where
  "includesChar c s \<longleftrightarrow> c \<in> set s"

definition trim :: "jsstring \<Rightarrow> jsstring" where
  "trim s = rev (dropWhile isWhiteSpace (rev (dropWhile isWhiteSpace s)))"

text \<open>\<^verbatim>\<open>s.split(c)\<close> for a one-character separator.\<close>

fun split_on :: "code_unit \<Rightarrow> jsstring \<Rightarrow> jsstring \<Rightarrow> jsstring list" where
  "split_on c acc [] = [rev acc]"
| "split_on c acc (x # xs) =
     (if x = c then rev acc # split_on c [] xs else split_on c (x # acc) xs)"

definition split :: "code_unit \<Rightarrow> jsstring \<Rightarrow> jsstring list" where
  "split c s = split_on c [] s"

text \<open>
  An element of a destructured array inside a template literal: a missing element is
  \<^verbatim>\<open>undefined\<close> and prints as such.
\<close>

definition element_text :: "jsstring list \<Rightarrow> nat \<Rightarrow> jsstring" where
  "element_text parts i = (if i < length parts then parts ! i else str ''undefined'')"

text \<open>\<^verbatim>\<open>n.toString()\<close> for a non-negative integer, and \<^verbatim>\<open>padStart\<close>.\<close>

fun toString :: "nat \<Rightarrow> jsstring" where
  "toString n =
     (if n < 10 then [of_nat (48 + n)] else toString (n div 10) @ [of_nat (48 + n mod 10)])"

definition padStart :: "nat \<Rightarrow> code_unit \<Rightarrow> jsstring \<Rightarrow> jsstring" where
  "padStart n c s = replicate (n - length s) c @ s"

section \<open>Number normalisation (sanitizeNumber)\<close>

definition sanitizeNumber :: "jsstring \<Rightarrow> jsstring" where
  "sanitizeNumber s =
     replaceAll (\<lambda>c. c = 0x2C) (str ''.'')
       (replaceAll (\<lambda>c. c = 0xA0 \<or> c = 0x2009 \<or> c = 0x202F \<or> isWhiteSpace c) [] s)"

section \<open>Pair metrics (shared/schema.ts)\<close>

record pair_metrics =
  totalStake :: number
  profitPercentageA :: number
  profitPercentageB :: number

definition calculatePairMetrics :: "number \<Rightarrow> number \<Rightarrow> number \<Rightarrow> number \<Rightarrow> pair_metrics" where
  "calculatePairMetrics stakeA stakeB payoutA payoutB =
     (let total = stakeA + stakeB;
          percA = (if total > Num 0 then ((payoutA - total) / total) * Num 100 else Num 0);
          percB = (if total > Num 0 then ((payoutB - total) / total) * Num 100 else Num 0)
      in \<lparr> totalStake = total, profitPercentageA = percA, profitPercentageB = percB \<rparr>)"

section \<open>Bets (shared/schema.ts)\<close>

datatype bet_status = Pending | Won | Lost | Returned

datatype bet_position = PosA | PosB

text \<open>
  A row of the \<^verbatim>\<open>bets\<close> table (type \<^verbatim>\<open>Bet\<close>). Decimal columns are strings, the two
  nullable columns are options, \<^verbatim>\<open>createdAt\<close> is a time value in milliseconds.
\<close>

record bet =
  bet_id :: jsstring
  teamA :: jsstring
  teamB :: jsstring
  betType :: jsstring
  selectedSide :: jsstring
  bettingHouse :: jsstring
  odds :: jsstring
  stake :: jsstring
  payout :: jsstring
  gameDate :: jsstring
  gameTime :: jsstring
  sport :: jsstring
  league :: jsstring
  status :: bet_status
  isVerified :: bool
  pairId :: jsstring
  betPosition :: bet_position
  totalPairStake :: "jsstring option"
  profitPercentage :: "jsstring option"
  createdAt :: int

section \<open>Pair resolution (Dashboard, pairStats)\<close>

record pair_stat =
  pairId :: jsstring
  status :: bet_status
  totalStake :: number
  netResult :: number
  gameDate :: jsstring
  incomplete :: bool

text \<open>\<^verbatim>\<open>a.betPosition.localeCompare(b.betPosition)\<close> orders "A" before "B".\<close>

fun position_rank :: "bet_position \<Rightarrow> nat" where
  "position_rank PosA = 0"
| "position_rank PosB = 1"

text \<open>
  The callback of \<^verbatim>\<open>Object.values(pairs).map(...)\<close>: the view of one group of bets that
  share a pairId. \<open>None\<close> is the \<^verbatim>\<open>null\<close> that \<^verbatim>\<open>filter(Boolean)\<close> drops afterwards.
  \<^verbatim>\<open>Array.prototype.sort\<close> is stable, as \<open>sort_key\<close> is.
\<close>

definition pairStat :: "(jsstring \<Rightarrow> number) \<Rightarrow> bet list \<Rightarrow> pair_stat option" where
  "pairStat toNumber pairBets =
     (let sortedBets = sort_key (\<lambda>x. position_rank (bet.betPosition x)) pairBets;
          betA = find (\<lambda>x. bet.betPosition x = PosA) sortedBets;
          betB = find (\<lambda>x. bet.betPosition x = PosB) sortedBets
      in case (betA, betB) of
           (None, None) \<Rightarrow> None
         | (Some a, None) \<Rightarrow>
             Some \<lparr> pairId = bet.pairId a, status = Pending, totalStake = toNumber (bet.stake a),
                    netResult = Num 0, gameDate = bet.gameDate a, incomplete = True \<rparr>
         | (None, Some b) \<Rightarrow>
             Some \<lparr> pairId = bet.pairId b, status = Pending, totalStake = toNumber (bet.stake b),
                    netResult = Num 0, gameDate = bet.gameDate b, incomplete = True \<rparr>
         | (Some a, Some b) \<Rightarrow>
             (let stakeA = toNumber (bet.stake a);
                  stakeB = toNumber (bet.stake b);
                  total = stakeA + stakeB;
                  statusA = bet.status a;
                  statusB = bet.status b;
                  returnedA = (statusA = Returned);
                  returnedB = (statusB = Returned);
                  wonLeg = (if statusA = Won then Some a else if statusB = Won then Some b else None);
                  returnedAmount = (if returnedA then stakeA else Num 0) + (if returnedB then stakeB else Num 0);
                  (pairStatus, net) =
                    (if statusA = Pending \<or> statusB = Pending then (Pending, Num 0)
                     else if returnedA \<and> returnedB then (Returned, Num 0)
                     else case wonLeg of
                            Some w \<Rightarrow> (Won, toNumber (bet.payout w) + returnedAmount - total)
                          | None \<Rightarrow> (Lost, returnedAmount - total))
              in Some \<lparr> pairId = bet.pairId a, status = pairStatus, totalStake = total,
                        netResult = net, gameDate = bet.gameDate a, incomplete = False \<rparr>))"

definition pairStats :: "(jsstring \<Rightarrow> number) \<Rightarrow> bet list list \<Rightarrow> pair_stat list" where
  "pairStats toNumber groups = List.map_filter (pairStat toNumber) groups"

definition incompletePairs :: "pair_stat list \<Rightarrow> nat" where
  "incompletePairs ps = length (filter incomplete ps)"

definition pendingPairs :: "pair_stat list \<Rightarrow> nat" where
  "pendingPairs ps = length (filter (\<lambda>p. pair_stat.status p = Pending) ps)"

section \<open>In-memory storage (server/storage.ts, MemStorage)\<close>

record user =
  user_id :: jsstring
  username :: jsstring
  password :: jsstring

text \<open>The two \<^verbatim>\<open>Map\<close>s of the store, by key; their iteration order is not modelled.\<close>

record mem_storage =
  users :: "jsstring \<rightharpoonup> user"
  bets :: "jsstring \<rightharpoonup> bet"

definition updateBetStatus :: "mem_storage \<Rightarrow> jsstring \<Rightarrow> bet_status \<Rightarrow> bet option \<times> mem_storage" where
  "updateBetStatus st i s =
     (case bets st i of
        Some b \<Rightarrow>
          (let updatedBet = b\<lparr> bet.status := s \<rparr>
           in (Some updatedBet, st\<lparr> bets := (bets st)(i \<mapsto> updatedBet) \<rparr>))
      | None \<Rightarrow> (None, st))"

section \<open>Dates\<close>

text \<open>
  A \<^verbatim>\<open>Date\<close> object, by its time value and the UTC calendar fields the code reads from it
  (\<^verbatim>\<open>getUTCMonth\<close> counts from 0). Invalid dates and years before 0 are not modelled.
\<close>

record js_date =
  time_value :: int
  utcFullYear :: nat
  utcMonth :: nat
  utcDate :: nat

datatype game_date = DateObject js_date | DateString jsstring

text \<open>\<^verbatim>\<open>formatGameDate\<close>, the helper of \<^verbatim>\<open>handleOCRConfirm\<close>.\<close>

definition formatGameDate :: "game_date \<Rightarrow> jsstring" where
  "formatGameDate g =
     (case g of
        DateObject d \<Rightarrow>
          (let day = padStart 2 0x30 (toString (utcDate d));
               month = padStart 2 0x30 (toString (utcMonth d + 1));
               year = toString (utcFullYear d)
           in day @ str ''-'' @ month @ str ''-'' @ year)
      | DateString s \<Rightarrow>
          (if includesChar 0x2F s then replaceAll (\<lambda>c. c = 0x2F) (str ''-'') s else s))"

text \<open>The test \<^verbatim>\<open>dateStr.match(/^\d{2}-\d{2}-\d{4}$/)\<close>.\<close>

definition matches_dd_mm_yyyy :: "jsstring \<Rightarrow> bool" where
  "matches_dd_mm_yyyy s =
     list_all2 (\<lambda>p c. p c)
       [isDigit, isDigit, (\<lambda>c. c = 0x2D), isDigit, isDigit, (\<lambda>c. c = 0x2D),
        isDigit, isDigit, isDigit, isDigit] s"

section \<open>Creating a bet (server/storage.ts, MemStorage.createBet)\<close>

text \<open>
  The argument of \<^verbatim>\<open>createBet\<close> (type \<^verbatim>\<open>InsertBet\<close>). The columns with a default and the
  nullable columns may be absent. \<^verbatim>\<open>gameDate\<close> is \<open>None\<close> when the value received is not a
  string, which the code tests with \<^verbatim>\<open>typeof\<close>.
\<close>

record insert_bet =
  teamA :: jsstring
  teamB :: jsstring
  betType :: jsstring
  selectedSide :: jsstring
  bettingHouse :: jsstring
  odds :: jsstring
  stake :: jsstring
  payout :: jsstring
  gameDate :: "jsstring option"
  gameTime :: jsstring
  sport :: jsstring
  league :: jsstring
  status :: "bet_status option"
  isVerified :: "bool option"
  pairId :: jsstring
  betPosition :: bet_position
  totalPairStake :: "jsstring option"
  profitPercentage :: "jsstring option"

text \<open>\<^verbatim>\<open>x || null\<close> on an optional string: the empty string is falsy.\<close>

definition or_null :: "jsstring option \<Rightarrow> jsstring option" where
  "or_null x = (case x of None \<Rightarrow> None | Some v \<Rightarrow> if v = [] then None else Some v)"

text \<open>
  \<open>newId\<close> is the result of \<^verbatim>\<open>randomUUID()\<close>, \<open>today\<close> the clock read in the fallback
  branch and \<open>created\<close> the clock read for \<^verbatim>\<open>createdAt\<close>.
\<close>

definition createBet ::
  "mem_storage \<Rightarrow> jsstring \<Rightarrow> js_date \<Rightarrow> js_date \<Rightarrow> insert_bet \<Rightarrow> bet \<times> mem_storage" where
  "createBet st newId today created insertBet =
     (let formattedGameDate =
            (case insert_bet.gameDate insertBet of
               Some gd \<Rightarrow>
                 (let dateStr = (if includesChar 0x2F gd
                                 then replaceAll (\<lambda>c. c = 0x2F) (str ''-'') gd else gd)
                  in if matches_dd_mm_yyyy dateStr
                     then (let parts = split 0x2D dateStr;
                               day = element_text parts 0;
                               month = element_text parts 1;
                               year = element_text parts 2
                           in year @ str ''-'' @ month @ str ''-'' @ day)
                     else dateStr)
             | None \<Rightarrow>
                 (let year = toString (utcFullYear today);
                      month = padStart 2 0x30 (toString (utcMonth today + 1));
                      day = padStart 2 0x30 (toString (utcDate today))
                  in year @ str ''-'' @ month @ str ''-'' @ day));
          newBet =
            \<lparr> bet_id = newId,
              bet.teamA = insert_bet.teamA insertBet,
              bet.teamB = insert_bet.teamB insertBet,
              bet.betType = insert_bet.betType insertBet,
              bet.selectedSide = insert_bet.selectedSide insertBet,
              bet.bettingHouse = insert_bet.bettingHouse insertBet,
              bet.odds = insert_bet.odds insertBet,
              bet.stake = insert_bet.stake insertBet,
              bet.payout = insert_bet.payout insertBet,
              bet.gameDate = formattedGameDate,
              bet.gameTime = insert_bet.gameTime insertBet,
              bet.sport = insert_bet.sport insertBet,
              bet.league = insert_bet.league insertBet,
              bet.status = (case insert_bet.status insertBet of Some v \<Rightarrow> v | None \<Rightarrow> Pending),
              bet.isVerified = (case insert_bet.isVerified insertBet of Some v \<Rightarrow> v | None \<Rightarrow> False),
              bet.pairId = insert_bet.pairId insertBet,
              bet.betPosition = insert_bet.betPosition insertBet,
              bet.totalPairStake = or_null (insert_bet.totalPairStake insertBet),
              bet.profitPercentage = or_null (insert_bet.profitPercentage insertBet),
              createdAt = time_value created \<rparr>
      in (newBet, st\<lparr> bets := (bets st)(newId \<mapsto> newBet) \<rparr>))"

section \<open>OCR data and its verification (OCRVerification, validateForm)\<close>

text \<open>
  The shapes \<^verbatim>\<open>SingleBetOCR\<close> and \<^verbatim>\<open>OCRData\<close>. The type of the plain fields is a parameter:
  strings in the verification form, arbitrary values in the result of the conversion of an
  AI response, which copies them unchecked.
\<close>

record 'v single_bet_ocr =
  bettingHouse :: 'v
  teamA :: 'v
  teamB :: 'v
  betType :: 'v
  odds :: 'v
  stake :: 'v
  profit :: 'v

record 'v ocr_data =
  betA :: "'v single_bet_ocr"
  betB :: "'v single_bet_ocr"
  gameDate :: game_date
  gameTime :: "'v option"
  gameDateFormatted :: "jsstring option"
  gameDateTime :: "jsstring option"
  sport :: 'v
  league :: 'v
  totalProfitPercentage :: jsstring

text \<open>
  \<^verbatim>\<open>toLowerCase\<close> is a builtin whose Unicode case mapping is not modelled: it is the
  parameter \<open>toLowerCase\<close> of the functions below.
\<close>

definition normalizeTeam :: "(jsstring \<Rightarrow> jsstring) \<Rightarrow> jsstring \<Rightarrow> jsstring" where
  "normalizeTeam toLowerCase team = toLowerCase (trim team)"

text \<open>
  The checks of one bet. \<^verbatim>\<open>newErrors\<close> is modelled by the list of its keys, in the order
  in which they are set; the message stored under a key is fixed by the key.
\<close>

definition validateSingleBet ::
  "(jsstring \<Rightarrow> number) \<Rightarrow> string \<Rightarrow> jsstring single_bet_ocr \<Rightarrow> string list" where
  "validateSingleBet toNumber prefix b =
     (if trim (single_bet_ocr.bettingHouse b) = [] then [prefix @ ''.bettingHouse''] else [])
     @ (if trim (single_bet_ocr.teamA b) = [] then [prefix @ ''.teamA''] else [])
     @ (if trim (single_bet_ocr.teamB b) = [] then [prefix @ ''.teamB''] else [])
     @ (if trim (single_bet_ocr.betType b) = [] then [prefix @ ''.betType''] else [])
     @ (if single_bet_ocr.odds b = [] \<or> isNaN (toNumber (single_bet_ocr.odds b))
           \<or> toNumber (single_bet_ocr.odds b) \<le> Num 0
        then [prefix @ ''.odds''] else [])
     @ (if single_bet_ocr.stake b = [] \<or> isNaN (toNumber (single_bet_ocr.stake b))
           \<or> toNumber (single_bet_ocr.stake b) \<le> Num 0
        then [prefix @ ''.stake''] else [])
     @ (if single_bet_ocr.profit b = [] \<or> isNaN (toNumber (single_bet_ocr.profit b))
        then [prefix @ ''.profit''] else [])"

definition validateForm_errors ::
  "(jsstring \<Rightarrow> number) \<Rightarrow> (jsstring \<Rightarrow> jsstring) \<Rightarrow> jsstring ocr_data \<Rightarrow> string list" where
  "validateForm_errors toNumber toLowerCase formData =
     validateSingleBet toNumber ''betA'' (betA formData)
     @ validateSingleBet toNumber ''betB'' (betB formData)
     @ (if ocr_data.gameDate formData = DateString [] then [''gameDate''] else [])
     @ (if ocr_data.sport formData = [] \<or> trim (ocr_data.sport formData) = []
        then [''sport''] else [])
     @ (if ocr_data.league formData = [] \<or> trim (ocr_data.league formData) = []
        then [''league''] else [])
     @ (if totalProfitPercentage formData = [] \<or> isNaN (toNumber (totalProfitPercentage formData))
        then [''totalProfitPercentage''] else [])
     @ (if normalizeTeam toLowerCase (single_bet_ocr.teamA (betA formData))
             \<noteq> normalizeTeam toLowerCase (single_bet_ocr.teamA (betB formData))
           \<or> normalizeTeam toLowerCase (single_bet_ocr.teamB (betA formData))
             \<noteq> normalizeTeam toLowerCase (single_bet_ocr.teamB (betB formData))
        then [''teams''] else [])"

definition validateForm ::
  "(jsstring \<Rightarrow> number) \<Rightarrow> (jsstring \<Rightarrow> jsstring) \<Rightarrow> jsstring ocr_data \<Rightarrow> bool" where
  "validateForm toNumber toLowerCase formData
     \<longleftrightarrow> validateForm_errors toNumber toLowerCase formData = []"

text \<open>
  \<^verbatim>\<open>getDisplayDate\<close>, the date shown in the verification form; \<open>None\<close> is \<^verbatim>\<open>null\<close>.
  The body of the \<^verbatim>\<open>try\<close> block builds a \<^verbatim>\<open>Date\<close> and prints it with \<^verbatim>\<open>format\<close> of the
  library date-fns, in the local time zone. Neither is modelled: the result of the block
  is the parameter \<open>tryFormat\<close>, which is \<open>None\<close> when the block throws.
\<close>

definition getDisplayDate ::
  "(game_date \<Rightarrow> jsstring option) \<Rightarrow> jsstring ocr_data \<Rightarrow> jsstring option" where
  "getDisplayDate tryFormat formData =
     (let byGameDate =
            (case ocr_data.gameDate formData of
               DateString s \<Rightarrow>
                 (if s = [] then None
                  else if includesChar 0x2F s
                    then Some (replaceAll (\<lambda>c. c = 0x2F) (str ''-'') s)
                  else (case tryFormat (DateString s) of Some shown \<Rightarrow> Some shown | None \<Rightarrow> Some s))
             | DateObject d \<Rightarrow>
                 (case tryFormat (DateObject d) of Some shown \<Rightarrow> Some shown | None \<Rightarrow> None))
      in case gameDateFormatted formData of
           Some f \<Rightarrow> if f \<noteq> [] then Some f else byGameDate
         | None \<Rightarrow> byGameDate)"

section \<open>Pair validation helper (shared/schema.ts, validateBetPair)\<close>

text \<open>
  The four messages of \<^verbatim>\<open>validateBetPair\<close>, in the order of the source. The arguments
  have type \<^verbatim>\<open>Partial<Bet>\<close>; here every field is present.
\<close>

datatype pair_error = SamePairIdRequired | SameTeamsRequired | OppositeSidesRequired
  | DifferentPositionsRequired

definition validateBetPair :: "bet \<Rightarrow> bet \<Rightarrow> pair_error list" where
  "validateBetPair x y =
     (if bet.pairId x \<noteq> bet.pairId y then [SamePairIdRequired] else [])
     @ (if bet.teamA x \<noteq> bet.teamA y \<or> bet.teamB x \<noteq> bet.teamB y then [SameTeamsRequired] else [])
     @ (if bet.betPosition x = bet.betPosition y then [OppositeSidesRequired] else [])
     @ (if bet.betPosition x = bet.betPosition y then [DifferentPositionsRequired] else [])"

section \<open>Conversion of the AI response (convertClaudeToOCRFormat)\<close>

text \<open>
  A value of the language, as far as \<^verbatim>\<open>JSON.parse\<close> and property reads produce it. An
  object is the list of its own properties, each key once.
\<close>

datatype js_value = JUndefined | JNull | JBoolean bool | JNumber number | JString jsstring
  | JArray "js_value list" | JObject "(jsstring \<times> js_value) list"

text \<open>
  Reading a property. \<open>None\<close> is the \<^verbatim>\<open>TypeError\<close> raised on \<^verbatim>\<open>undefined\<close> and \<^verbatim>\<open>null\<close>.
  Inherited properties are not modelled: none of the names the conversion reads is one.
\<close>

fun get_prop :: "js_value \<Rightarrow> jsstring \<Rightarrow> js_value option" where
  "get_prop JUndefined k = None"
| "get_prop JNull k = None"
| "get_prop (JObject kvs) k = Some (case map_of kvs k of None \<Rightarrow> JUndefined | Some v \<Rightarrow> v)"
| "get_prop _ k = Some JUndefined"

fun truthy :: "js_value \<Rightarrow> bool" where
  "truthy JUndefined = False"
| "truthy JNull = False"
| "truthy (JBoolean b) = b"
| "truthy (JNumber x) = (x \<noteq> Num 0 \<and> x \<noteq> NaN)"
| "truthy (JString s) = (s \<noteq> [])"
| "truthy (JArray _) = True"
| "truthy (JObject _) = True"

text \<open>\<^verbatim>\<open>v || d\<close>.\<close>

definition or_default :: "js_value \<Rightarrow> js_value \<Rightarrow> js_value" where
  "or_default v d = (if truthy v then v else d)"

text \<open>
  \<^verbatim>\<open>v.replace(...)\<close>, with the effect \<open>f\<close> on a string. Only a string has a callable
  \<^verbatim>\<open>replace\<close>; on any other value the call raises \<^verbatim>\<open>TypeError\<close>.
\<close>

fun call_replace :: "js_value \<Rightarrow> (jsstring \<Rightarrow> jsstring) \<Rightarrow> jsstring option" where
  "call_replace (JString s) f = Some (f s)"
| "call_replace _ f = None"

definition convertSingleBet ::
  "js_value \<Rightarrow> js_value \<Rightarrow> js_value \<Rightarrow> js_value single_bet_ocr option" where
  "convertSingleBet claudeBet claudeTeamA claudeTeamB =
     do {
       house \<leftarrow> get_prop claudeBet (str ''bettingHouse'');
       type \<leftarrow> get_prop claudeBet (str ''betType'');
       odds \<leftarrow> get_prop claudeBet (str ''odds'');
       stake \<leftarrow> get_prop claudeBet (str ''stake'');
       profit \<leftarrow> get_prop claudeBet (str ''profit'');
       Some \<lparr> single_bet_ocr.bettingHouse = or_default house (JString []),
              single_bet_ocr.teamA = or_default claudeTeamA (JString []),
              single_bet_ocr.teamB = or_default claudeTeamB (JString []),
              single_bet_ocr.betType = or_default type (JString []),
              single_bet_ocr.odds = or_default odds (JString (str ''0'')),
              single_bet_ocr.stake = or_default stake (JString (str ''0'')),
              single_bet_ocr.profit = or_default profit (JString (str ''0'')) \<rparr>
     }"

definition convertClaudeToOCRFormat :: "js_value \<Rightarrow> js_value ocr_data option" where
  "convertClaudeToOCRFormat claudeData =
     do {
       percentage \<leftarrow> get_prop claudeData (str ''totalProfitPercentage'');
       cleanPercentage \<leftarrow>
         call_replace (or_default percentage (JString (str ''0''))) (replaceFirst 0x25 []);
       date \<leftarrow> get_prop claudeData (str ''gameDate'');
       gameDate \<leftarrow>
         (if truthy date then call_replace date (replaceAll (\<lambda>c. c = 0x2F) (str ''-''))
          else Some []);
       claudeTeamA \<leftarrow> get_prop claudeData (str ''teamA'');
       claudeTeamB \<leftarrow> get_prop claudeData (str ''teamB'');
       claudeBetA \<leftarrow> get_prop claudeData (str ''betA'');
       convertedA \<leftarrow> convertSingleBet claudeBetA claudeTeamA claudeTeamB;
       claudeBetB \<leftarrow> get_prop claudeData (str ''betB'');
       convertedB \<leftarrow> convertSingleBet claudeBetB claudeTeamA claudeTeamB;
       time \<leftarrow> get_prop claudeData (str ''gameTime'');
       claudeSport \<leftarrow> get_prop claudeData (str ''sport'');
       claudeLeague \<leftarrow> get_prop claudeData (str ''league'');
       Some \<lparr> betA = convertedA, betB = convertedB,
              ocr_data.gameDate = DateString gameDate,
              ocr_data.gameTime = Some (or_default time (JString (str ''00:00''))),
              gameDateFormatted = None, gameDateTime = None,
              ocr_data.sport = or_default claudeSport (JString []),
              ocr_data.league = or_default claudeLeague (JString []),
              totalProfitPercentage = cleanPercentage \<rparr>
     }"

section \<open>Values for the examples\<close>

text \<open>
  \<open>Number\<close> on plain decimal literals (digits, optionally followed by a dot and more
  digits). Any other string gives NaN here, which is not what \<open>Number\<close> does on signs,
  exponents, surrounding whitespace or the empty string; the general theorems therefore
  take \<open>toNumber\<close> as a parameter and only the examples use \<open>Number_decimal\<close>.
\<close>

definition digit_val :: "code_unit \<Rightarrow> nat option" where
  "digit_val c = (if 0x30 \<le> c \<and> c \<le> 0x39 then Some (unat c - 48) else None)"

fun digits_val :: "nat \<Rightarrow> jsstring \<Rightarrow> nat option" where
  "digits_val acc [] = Some acc"
| "digits_val acc (c # cs) =
     (case digit_val c of None \<Rightarrow> None | Some d \<Rightarrow> digits_val (10 * acc + d) cs)"

definition Number_decimal :: "jsstring \<Rightarrow> number" where
  "Number_decimal s =
     (let ip = takeWhile (\<lambda>c. c \<noteq> 0x2E) s;
          fp = drop (length ip + 1) s
      in if ip = [] \<or> (ip \<noteq> s \<and> fp = []) then NaN
         else case (digits_val 0 ip, digits_val 0 fp) of
                (Some i, Some f) \<Rightarrow> Num (of_nat i + of_nat f / 10 ^ length fp)
              | _ \<Rightarrow> NaN)"

definition example_leg :: "bet_position \<Rightarrow> bet_status \<Rightarrow> string \<Rightarrow> string \<Rightarrow> bet" where
  "example_leg pos st stk pay =
     \<lparr> bet_id = (case pos of PosA \<Rightarrow> str ''1'' | PosB \<Rightarrow> str ''2''),
       bet.teamA = str ''Flamengo'', bet.teamB = str ''Santos'',
       bet.betType = str ''1x2'', bet.selectedSide = str ''1x2'', bet.bettingHouse = str ''Bet365'',
       bet.odds = str ''2.50'', bet.stake = str stk, bet.payout = str pay,
       bet.gameDate = str ''2025-09-26'', bet.gameTime = str ''13:00'',
       bet.sport = str ''Futebol'', bet.league = str ''Serie A'',
       bet.status = st, bet.isVerified = True, bet.pairId = str ''pair-123'', bet.betPosition = pos,
       bet.totalPairStake = Some (str ''200''), bet.profitPercentage = Some (str ''25''),
       createdAt = 0 \<rparr>"

text \<open>\<^verbatim>\<open>toLowerCase\<close> on strings of ASCII code units.\<close>

definition toLowerCase_ascii :: "jsstring \<Rightarrow> jsstring" where
  "toLowerCase_ascii s = map (\<lambda>c. if 0x41 \<le> c \<and> c \<le> 0x5A then c + 0x20 else c) s"

definition example_ocr_bet :: "string \<Rightarrow> string \<Rightarrow> string \<Rightarrow> jsstring single_bet_ocr" where
  "example_ocr_bet house home away =
     \<lparr> single_bet_ocr.bettingHouse = str house,
       single_bet_ocr.teamA = str home, single_bet_ocr.teamB = str away,
       single_bet_ocr.betType = str ''1x2'', single_bet_ocr.odds = str ''2.50'',
       single_bet_ocr.stake = str ''100'', single_bet_ocr.profit = str ''50'' \<rparr>"

definition example_form :: "string \<Rightarrow> string \<Rightarrow> jsstring ocr_data" where
  "example_form homeA homeB =
     \<lparr> betA = example_ocr_bet ''Bet365'' homeA ''Santos'',
       betB = example_ocr_bet ''Betano'' homeB ''Santos'',
       ocr_data.gameDate = DateString (str ''26-09-2025''),
       ocr_data.gameTime = Some (str ''13:00''),
       gameDateFormatted = None, gameDateTime = None,
       ocr_data.sport = str ''Futebol'', ocr_data.league = str ''Serie A'',
       totalProfitPercentage = str ''1.45'' \<rparr>"

definition empty_storage :: mem_storage where
  "empty_storage = \<lparr> users = Map.empty, bets = Map.empty \<rparr>"

definition example_today :: js_date where
  "example_today = \<lparr> time_value = 1758844800000, utcFullYear = 2025, utcMonth = 8, utcDate = 26 \<rparr>"

definition example_insert :: "jsstring option \<Rightarrow> insert_bet" where
  "example_insert d =
     \<lparr> insert_bet.teamA = str ''Flamengo'', insert_bet.teamB = str ''Santos'',
       insert_bet.betType = str ''1x2'', insert_bet.selectedSide = str ''1x2'',
       insert_bet.bettingHouse = str ''Bet365'',
       insert_bet.odds = str ''2.50'', insert_bet.stake = str ''100'',
       insert_bet.payout = str ''250.00'',
       insert_bet.gameDate = d, insert_bet.gameTime = str ''13:00'',
       insert_bet.sport = str ''Futebol'', insert_bet.league = str ''Serie A'',
       insert_bet.status = Some Pending, insert_bet.isVerified = Some True,
       insert_bet.pairId = str ''pair-123'', insert_bet.betPosition = PosA,
       insert_bet.totalPairStake = Some (str ''200''),
       insert_bet.profitPercentage = Some (str ''25'') \<rparr>"

text \<open>A \<^verbatim>\<open>try\<close> block that always throws.\<close>

definition failing_format :: "game_date \<Rightarrow> jsstring option" where
  "failing_format g = None"

section \<open>Verified properties\<close>

subsection \<open>Auxiliary facts\<close>

lemma Number_decimal_100: "Number_decimal (str ''100'') = Num 100"
  by (simp add: Number_decimal_def str_def digit_val_def)

lemma Number_decimal_250: "Number_decimal (str ''250'') = Num 250"
  by (simp add: Number_decimal_def str_def digit_val_def)

lemma find_filter_case: "find P xs = (case filter P xs of [] \<Rightarrow> None | x # _ \<Rightarrow> Some x)"
  by (induction xs) auto

lemma position_rank_inj: "position_rank p = position_rank q \<longleftrightarrow> p = q"
  by (cases p; cases q) auto

lemma filter_sorted_position:
  "filter (\<lambda>x. bet.betPosition x = p) (sort_key (\<lambda>x. position_rank (bet.betPosition x)) xs)
     = filter (\<lambda>x. bet.betPosition x = p) xs"
  using sort_key_stable [of "\<lambda>x. position_rank (bet.betPosition x)" "position_rank p" xs]
  by (simp add: position_rank_inj)

lemma find_sorted_position:
  "find (\<lambda>x. bet.betPosition x = p) (sort_key (\<lambda>x. position_rank (bet.betPosition x)) xs)
     = find (\<lambda>x. bet.betPosition x = p) xs"
  by (simp add: find_filter_case filter_sorted_position)

lemma number_add_zero: "(x::number) + Num 0 = x"
  by (cases x) auto

lemma number_zero_add: "Num 0 + (x::number) = x"
  by (cases x) auto

lemma pairStat_complete:
  assumes "find (\<lambda>x. bet.betPosition x = PosA) g = Some a"
      and "find (\<lambda>x. bet.betPosition x = PosB) g = Some b"
  shows "pairStat N g =
     Some \<lparr> pair_stat.pairId = bet.pairId a,
            status =
              (if bet.status a = Pending \<or> bet.status b = Pending then Pending
               else if bet.status a = Returned \<and> bet.status b = Returned then Returned
               else if bet.status a = Won \<or> bet.status b = Won then Won else Lost),
            pair_stat.totalStake = N (bet.stake a) + N (bet.stake b),
            netResult =
              (if bet.status a = Pending \<or> bet.status b = Pending then Num 0
               else if bet.status a = Returned \<and> bet.status b = Returned then Num 0
               else if bet.status a = Won
                 then N (bet.payout a)
                      + ((if bet.status a = Returned then N (bet.stake a) else Num 0)
                         + (if bet.status b = Returned then N (bet.stake b) else Num 0))
                      - (N (bet.stake a) + N (bet.stake b))
               else if bet.status b = Won
                 then N (bet.payout b)
                      + ((if bet.status a = Returned then N (bet.stake a) else Num 0)
                         + (if bet.status b = Returned then N (bet.stake b) else Num 0))
                      - (N (bet.stake a) + N (bet.stake b))
               else ((if bet.status a = Returned then N (bet.stake a) else Num 0)
                         + (if bet.status b = Returned then N (bet.stake b) else Num 0))
                      - (N (bet.stake a) + N (bet.stake b))),
            pair_stat.gameDate = bet.gameDate a, incomplete = False \<rparr>"
  using assms
  by (cases "bet.status a"; cases "bet.status b")
     (simp_all add: pairStat_def find_sorted_position Let_def)

lemma pairStat_single:
  "pairStat N [b] =
     Some \<lparr> pair_stat.pairId = bet.pairId b, pair_stat.status = Pending, pair_stat.totalStake = N (bet.stake b),
            netResult = Num 0, pair_stat.gameDate = bet.gameDate b, incomplete = True \<rparr>"
  by (cases "bet.betPosition b") (simp_all add: pairStat_def)

subsection \<open>Pair resolution\<close>

text \<open>
  C1. For a complete pair (the group holds a leg at position A and a leg at position B;
  \<open>a\<close> and \<open>b\<close> are the first of each), the derived status and net result follow the
  resolution table: a pending leg makes the pair pending with net result 0; two returned
  legs make it returned with net result 0; a won leg, with neither pending, makes it won
  with net result the winning leg's payout plus the returned stakes minus the total stake;
  otherwise the pair is lost with net result the returned stakes minus the total stake.
  The witness is the example of the specification: leg A won with stake 100 and payout
  250, leg B lost with stake 100, giving status won and net result 50.
\<close>

theorem pairStat_resolution:
  assumes "find (\<lambda>x. bet.betPosition x = PosA) g = Some a"
      and "find (\<lambda>x. bet.betPosition x = PosB) g = Some b"
  shows "\<exists>p. pairStat N g = Some p \<and> \<not> incomplete p
     \<and> pair_stat.totalStake p = N (bet.stake a) + N (bet.stake b)
     \<and> (bet.status a = Pending \<or> bet.status b = Pending
           \<longrightarrow> pair_stat.status p = Pending \<and> netResult p = Num 0)
     \<and> (bet.status a = Returned \<and> bet.status b = Returned
           \<longrightarrow> pair_stat.status p = Returned \<and> netResult p = Num 0)
     \<and> (bet.status a = Won \<and> bet.status b \<noteq> Pending
           \<longrightarrow> pair_stat.status p = Won
             \<and> netResult p = N (bet.payout a)
                   + ((if bet.status a = Returned then N (bet.stake a) else Num 0)
                      + (if bet.status b = Returned then N (bet.stake b) else Num 0))
                   - (N (bet.stake a) + N (bet.stake b)))
     \<and> (bet.status b = Won \<and> bet.status a \<noteq> Pending \<and> bet.status a \<noteq> Won
           \<longrightarrow> pair_stat.status p = Won
             \<and> netResult p = N (bet.payout b)
                   + ((if bet.status a = Returned then N (bet.stake a) else Num 0)
                      + (if bet.status b = Returned then N (bet.stake b) else Num 0))
                   - (N (bet.stake a) + N (bet.stake b)))
     \<and> (bet.status a \<noteq> Pending \<and> bet.status b \<noteq> Pending
          \<and> bet.status a \<noteq> Won \<and> bet.status b \<noteq> Won
          \<and> \<not> (bet.status a = Returned \<and> bet.status b = Returned)
           \<longrightarrow> pair_stat.status p = Lost
             \<and> netResult p = ((if bet.status a = Returned then N (bet.stake a) else Num 0)
                      + (if bet.status b = Returned then N (bet.stake b) else Num 0))
                   - (N (bet.stake a) + N (bet.stake b)))"
  unfolding pairStat_complete [OF assms]
  by (cases "bet.status a"; cases "bet.status b") simp_all

theorem pairStat_resolution_witness:
  "\<exists>p. pairStat Number_decimal
          [example_leg PosA Won ''100'' ''250'', example_leg PosB Lost ''100'' ''0''] = Some p
       \<and> \<not> incomplete p \<and> pair_stat.totalStake p = Num 200
       \<and> pair_stat.status p = Won \<and> netResult p = Num 50"
  using pairStat_resolution
          [of "[example_leg PosA Won ''100'' ''250'', example_leg PosB Lost ''100'' ''0'']"
              "example_leg PosA Won ''100'' ''250''" "example_leg PosB Lost ''100'' ''0''"
              Number_decimal]
  by (simp add: example_leg_def Number_decimal_100 Number_decimal_250 minus_number_def)

text \<open>
  C9. When both legs of a complete pair are won, the computation returns a value, the pair
  is won, and leg A counts as the winning leg: the net result is the payout of leg A minus
  the total stake.
\<close>

theorem pairStat_both_won:
  assumes "find (\<lambda>x. bet.betPosition x = PosA) g = Some a"
      and "find (\<lambda>x. bet.betPosition x = PosB) g = Some b"
      and "bet.status a = Won" and "bet.status b = Won"
  shows "\<exists>p. pairStat N g = Some p \<and> pair_stat.status p = Won
           \<and> netResult p = N (bet.payout a) - (N (bet.stake a) + N (bet.stake b))"
  using assms(3,4)
  by (simp add: pairStat_complete [OF assms(1,2)] number_add_zero)

theorem pairStat_both_won_witness:
  "\<exists>p. pairStat Number_decimal
          [example_leg PosB Won ''100'' ''100'', example_leg PosA Won ''100'' ''250''] = Some p
       \<and> pair_stat.status p = Won \<and> netResult p = Num 50"
  using pairStat_both_won
          [of "[example_leg PosB Won ''100'' ''100'', example_leg PosA Won ''100'' ''250'']"
              "example_leg PosA Won ''100'' ''250''" "example_leg PosB Won ''100'' ''100''"
              Number_decimal]
  by (simp add: example_leg_def Number_decimal_100 Number_decimal_250 minus_number_def)

subsection \<open>Pair metrics\<close>

text \<open>
  C2. \<open>calculatePairMetrics\<close> returns the sum of the two stakes as total stake and, when
  that total is greater than zero, the percentages
  \<open>((payout - totalStake) / totalStake) * 100\<close> of each side. The witness is
  \<open>calculatePairMetrics(100, 100, 250, 0)\<close>, which gives 200, 25 and -100.
\<close>

theorem calculatePairMetrics_formula:
  "pair_metrics.totalStake (calculatePairMetrics sA sB pA pB) = sA + sB
   \<and> (sA + sB > Num 0 \<longrightarrow>
        profitPercentageA (calculatePairMetrics sA sB pA pB)
          = ((pA - (sA + sB)) / (sA + sB)) * Num 100
      \<and> profitPercentageB (calculatePairMetrics sA sB pA pB)
          = ((pB - (sA + sB)) / (sA + sB)) * Num 100)"
  by (simp add: calculatePairMetrics_def Let_def)

theorem calculatePairMetrics_formula_witness:
  "Num 100 + Num 100 > Num 0
   \<and> calculatePairMetrics (Num 100) (Num 100) (Num 250) (Num 0)
       = \<lparr> pair_metrics.totalStake = Num 200, profitPercentageA = Num 25, profitPercentageB = Num (- 100) \<rparr>"
  using calculatePairMetrics_formula [of "Num 100" "Num 100" "Num 250" "Num 0"]
  by (simp add: minus_number_def)

text \<open>
  C3. When the two stakes add up to zero, both percentages are 0 (a finite number, neither
  an infinity nor NaN) and the total stake is 0. The function is total: JavaScript
  arithmetic raises no error, and the guard keeps the division by the zero total from
  being evaluated.
\<close>

theorem calculatePairMetrics_zero_total:
  assumes "sA + sB = Num 0"
  shows "calculatePairMetrics sA sB pA pB
           = \<lparr> pair_metrics.totalStake = Num 0, profitPercentageA = Num 0, profitPercentageB = Num 0 \<rparr>
         \<and> isFinite (profitPercentageA (calculatePairMetrics sA sB pA pB))
         \<and> isFinite (profitPercentageB (calculatePairMetrics sA sB pA pB))"
  using assms by (simp add: calculatePairMetrics_def Let_def isFinite_def)

theorem calculatePairMetrics_zero_total_witness:
  "Num 0 + Num 0 = Num 0
   \<and> calculatePairMetrics (Num 0) (Num 0) (Num 0) (Num 0)
       = \<lparr> pair_metrics.totalStake = Num 0, profitPercentageA = Num 0, profitPercentageB = Num 0 \<rparr>
   \<and> Num 50 + Num (- 50) = Num 0
   \<and> profitPercentageA (calculatePairMetrics (Num 50) (Num (- 50)) (Num 75) PosInf) = Num 0
   \<and> profitPercentageB (calculatePairMetrics (Num 50) (Num (- 50)) (Num 75) PosInf) = Num 0"
  using calculatePairMetrics_zero_total [of "Num 0" "Num 0" "Num 0" "Num 0"]
        calculatePairMetrics_zero_total [of "Num 50" "Num (- 50)" "Num 75" PosInf]
  by simp

subsection \<open>Incomplete pairs\<close>

lemma pairStat_None_iff:
  "pairStat N g = None \<longleftrightarrow>
     find (\<lambda>x. bet.betPosition x = PosA) g = None \<and> find (\<lambda>x. bet.betPosition x = PosB) g = None"
  by (simp add: pairStat_def find_sorted_position Let_def split: option.splits prod.splits)

lemma pairStat_incomplete_iff:
  "pairStat N g = Some p \<Longrightarrow>
     incomplete p \<longleftrightarrow>
       (find (\<lambda>x. bet.betPosition x = PosA) g = None)
         \<noteq> (find (\<lambda>x. bet.betPosition x = PosB) g = None)"
  by (auto simp add: pairStat_def find_sorted_position Let_def split: option.splits prod.splits)

lemma incompletePairs_count:
  "incompletePairs (pairStats N groups)
     = length (filter (\<lambda>g. (find (\<lambda>x. bet.betPosition x = PosA) g = None)
                             \<noteq> (find (\<lambda>x. bet.betPosition x = PosB) g = None)) groups)"
proof -
  define Q :: "bet list \<Rightarrow> bool"
    where "Q = (\<lambda>g. (find (\<lambda>x. bet.betPosition x = PosA) g = None)
                       \<noteq> (find (\<lambda>x. bet.betPosition x = PosB) g = None))"
  have none: "\<not> Q g" if "pairStat N g = None" for g
    using that pairStat_None_iff [of N g] by (simp add: Q_def)
  have some: "incomplete p = Q g" if "pairStat N g = Some p" for g p
    using pairStat_incomplete_iff [OF that] by (simp add: Q_def)
  have "length (filter incomplete (List.map_filter (pairStat N) gs)) = length (filter Q gs)" for gs
  proof (induction gs)
    case Nil
    show ?case by (simp add: map_filter_simps)
  next
    case (Cons g gs)
    show ?case
    proof (cases "pairStat N g")
      case None
      with Cons none [OF None] show ?thesis by (simp add: map_filter_simps)
    next
      case (Some p)
      with Cons some [OF Some] show ?thesis by (simp add: map_filter_simps)
    qed
  qed
  then show ?thesis
    by (simp add: incompletePairs_def pairStats_def Q_def)
qed

text \<open>
  C4. A pair of which exactly one leg exists is reported as pending, with net result 0,
  the stake of the known leg as total stake, and \<open>incomplete = true\<close>. The flag is set on
  a reported pair exactly when one of the two positions has no leg, so the count of
  incomplete pairs in the statistics counts the groups with a missing leg, while a pending
  pair with both legs is not flagged.
\<close>

theorem pairStat_incomplete:
  "pairStat N [b] =
     Some \<lparr> pair_stat.pairId = bet.pairId b, pair_stat.status = Pending, pair_stat.totalStake = N (bet.stake b),
            netResult = Num 0, pair_stat.gameDate = bet.gameDate b, incomplete = True \<rparr>
   \<and> (\<forall>g p. pairStat N g = Some p \<longrightarrow>
         (incomplete p \<longleftrightarrow>
           (find (\<lambda>x. bet.betPosition x = PosA) g = None)
             \<noteq> (find (\<lambda>x. bet.betPosition x = PosB) g = None)))
   \<and> incompletePairs (pairStats N groups)
       = length (filter (\<lambda>g. (find (\<lambda>x. bet.betPosition x = PosA) g = None)
                             \<noteq> (find (\<lambda>x. bet.betPosition x = PosB) g = None)) groups)"
proof (intro conjI allI impI)
  show "pairStat N [b] =
     Some \<lparr> pair_stat.pairId = bet.pairId b, pair_stat.status = Pending, pair_stat.totalStake = N (bet.stake b),
            netResult = Num 0, pair_stat.gameDate = bet.gameDate b, incomplete = True \<rparr>"
    by (rule pairStat_single)
next
  fix g p assume "pairStat N g = Some p"
  then show "incomplete p \<longleftrightarrow>
           (find (\<lambda>x. bet.betPosition x = PosA) g = None)
             \<noteq> (find (\<lambda>x. bet.betPosition x = PosB) g = None)"
    by (rule pairStat_incomplete_iff)
next
  show "incompletePairs (pairStats N groups)
       = length (filter (\<lambda>g. (find (\<lambda>x. bet.betPosition x = PosA) g = None)
                             \<noteq> (find (\<lambda>x. bet.betPosition x = PosB) g = None)) groups)"
    by (rule incompletePairs_count)
qed

theorem pairStat_incomplete_witness:
  "pairStat Number_decimal [example_leg PosB Won ''100'' ''250''] =
     Some \<lparr> pair_stat.pairId = str ''pair-123'', pair_stat.status = Pending, pair_stat.totalStake = Num 100,
            netResult = Num 0, pair_stat.gameDate = str ''2025-09-26'', incomplete = True \<rparr>
   \<and> incompletePairs (pairStats Number_decimal
        [[example_leg PosB Won ''100'' ''250''],
         [example_leg PosA Pending ''100'' ''250'', example_leg PosB Pending ''100'' ''250'']]) = 1
   \<and> pendingPairs (pairStats Number_decimal
        [[example_leg PosB Won ''100'' ''250''],
         [example_leg PosA Pending ''100'' ''250'', example_leg PosB Pending ''100'' ''250'']]) = 2"
  using pairStat_incomplete [of Number_decimal "example_leg PosB Won ''100'' ''250''"
          "[[example_leg PosB Won ''100'' ''250''],
            [example_leg PosA Pending ''100'' ''250'', example_leg PosB Pending ''100'' ''250'']]"]
  by (simp add: example_leg_def Number_decimal_100 pendingPairs_def pairStats_def
        map_filter_simps pairStat_def)

subsection \<open>Status update\<close>

text \<open>
  C10. \<open>updateBetStatus\<close> on a stored bet changes the status field of that bet and nothing
  else: every other field of the bet, every other stored bet and the users are unchanged.
  When no bet has the given id, the call returns \<open>undefined\<close> and the store is unchanged.
\<close>

theorem updateBetStatus_frame:
  "(bets st i = None \<longrightarrow> updateBetStatus st i s = (None, st))
   \<and> (\<forall>b. bets st i = Some b \<longrightarrow>
        (\<exists>b' st'. updateBetStatus st i s = (Some b', st')
           \<and> bets st' i = Some b' \<and> bet.status b' = s
           \<and> bet_id b' = bet_id b \<and> bet.teamA b' = bet.teamA b \<and> bet.teamB b' = bet.teamB b
           \<and> bet.betType b' = bet.betType b \<and> bet.selectedSide b' = bet.selectedSide b
           \<and> bet.bettingHouse b' = bet.bettingHouse b \<and> bet.odds b' = bet.odds b \<and> bet.stake b' = bet.stake b
           \<and> bet.payout b' = bet.payout b \<and> bet.gameDate b' = bet.gameDate b
           \<and> bet.gameTime b' = bet.gameTime b \<and> bet.sport b' = bet.sport b \<and> bet.league b' = bet.league b
           \<and> bet.isVerified b' = bet.isVerified b \<and> bet.pairId b' = bet.pairId b
           \<and> bet.betPosition b' = bet.betPosition b \<and> bet.totalPairStake b' = bet.totalPairStake b
           \<and> bet.profitPercentage b' = bet.profitPercentage b \<and> createdAt b' = createdAt b
           \<and> b' = b\<lparr> bet.status := s \<rparr>
           \<and> (\<forall>j. j \<noteq> i \<longrightarrow> bets st' j = bets st j)
           \<and> users st' = users st))"
  by (simp add: updateBetStatus_def Let_def)

theorem updateBetStatus_frame_witness:
  "updateBetStatus \<lparr> users = Map.empty, bets = [str ''1'' \<mapsto> example_leg PosA Pending ''100'' ''250''] \<rparr>
       (str ''1'') Won
     = (Some (example_leg PosA Won ''100'' ''250''),
        \<lparr> users = Map.empty, bets = [str ''1'' \<mapsto> example_leg PosA Won ''100'' ''250''] \<rparr>)
   \<and> updateBetStatus \<lparr> users = Map.empty, bets = [str ''1'' \<mapsto> example_leg PosA Pending ''100'' ''250''] \<rparr>
       (str ''2'') Won
     = (None, \<lparr> users = Map.empty, bets = [str ''1'' \<mapsto> example_leg PosA Pending ''100'' ''250''] \<rparr>)"
  using updateBetStatus_frame
          [of "\<lparr> users = Map.empty, bets = [str ''1'' \<mapsto> example_leg PosA Pending ''100'' ''250''] \<rparr>"
              "str ''1''" Won]
        updateBetStatus_frame
          [of "\<lparr> users = Map.empty, bets = [str ''1'' \<mapsto> example_leg PosA Pending ''100'' ''250''] \<rparr>"
              "str ''2''" Won]
  by (simp add: updateBetStatus_def Let_def example_leg_def str_def)

subsection \<open>Date canonicalisation\<close>

lemma replaceAll_char:
  "replaceAll (\<lambda>c. c = a) [b] s = map (\<lambda>c. if c = a then b else c) s"
  by (induction s) (simp_all add: replaceAll_def)

lemma formatGameDate_string:
  "formatGameDate (DateString s) = map (\<lambda>c. if c = 0x2F then 0x2D else c) s"
proof (cases "includesChar 0x2F s")
  case True
  then show ?thesis
    by (simp add: formatGameDate_def replaceAll_char str_def)
next
  case False
  then have "map (\<lambda>c. if c = 0x2F then 0x2D else c) s = s"
    by (induction s) (auto simp add: includesChar_def)
  with False show ?thesis
    by (simp add: formatGameDate_def)
qed

lemma isDigit_not_separator: "isDigit c \<Longrightarrow> c \<noteq> 0x2D \<and> c \<noteq> 0x2F"
  by (auto simp add: isDigit_def)

lemma createBet_gameDate_reordered:
  assumes "list_all isDigit [d1, d2, m1, m2, y1, y2, y3, y4]"
      and "insert_bet.gameDate ins = Some [d1, d2, 0x2D, m1, m2, 0x2D, y1, y2, y3, y4]"
  shows "bet.gameDate (fst (createBet st newId today created ins))
           = [y1, y2, y3, y4, 0x2D, m1, m2, 0x2D, d1, d2]"
  using assms isDigit_not_separator
  by (simp add: createBet_def Let_def includesChar_def matches_dd_mm_yyyy_def split_def
        element_text_def str_def)

lemma createBet_stored:
  "bets (snd (createBet st newId today created ins)) newId
     = Some (fst (createBet st newId today created ins))"
  by (simp add: createBet_def Let_def)

text \<open>
  In the verification form a date string with a slash is shown with every slash replaced
  by a dash, whatever the date library does.
\<close>

lemma getDisplayDate_slash:
  assumes "gameDateFormatted fd = None"
      and "ocr_data.gameDate fd = DateString s"
      and "includesChar 0x2F s"
  shows "getDisplayDate F fd = Some (map (\<lambda>c. if c = 0x2F then 0x2D else c) s)"
proof -
  from assms(3) have "s \<noteq> []"
    by (auto simp add: includesChar_def)
  with assms show ?thesis
    by (simp add: getDisplayDate_def replaceAll_char str_def)
qed

text \<open>
  For every date \<open>DD/MM/YYYY\<close>, \<open>formatGameDate\<close> gives \<open>DD-MM-YYYY\<close> with the fields in
  place, and \<open>createBet\<close> stores it under the new id with the fields reordered, as
  \<open>YYYY-MM-DD\<close>.
\<close>

lemma formatGameDate_then_createBet:
  assumes "list_all isDigit [d1, d2, m1, m2, y1, y2, y3, y4]"
      and "insert_bet.gameDate ins
             = Some (formatGameDate (DateString [d1, d2, 0x2F, m1, m2, 0x2F, y1, y2, y3, y4]))"
  shows "formatGameDate (DateString [d1, d2, 0x2F, m1, m2, 0x2F, y1, y2, y3, y4])
         = [d1, d2, 0x2D, m1, m2, 0x2D, y1, y2, y3, y4]
     \<and> bet.gameDate (fst (createBet st newId today created ins))
         = [y1, y2, y3, y4, 0x2D, m1, m2, 0x2D, d1, d2]
     \<and> bets (snd (createBet st newId today created ins)) newId
         = Some (fst (createBet st newId today created ins))"
proof -
  from assms(1) have sep: "d1 \<noteq> 0x2F" "d2 \<noteq> 0x2F" "m1 \<noteq> 0x2F" "m2 \<noteq> 0x2F"
      "y1 \<noteq> 0x2F" "y2 \<noteq> 0x2F" "y3 \<noteq> 0x2F" "y4 \<noteq> 0x2F"
    using isDigit_not_separator by auto
  then have fmt: "formatGameDate (DateString [d1, d2, 0x2F, m1, m2, 0x2F, y1, y2, y3, y4])
         = [d1, d2, 0x2D, m1, m2, 0x2D, y1, y2, y3, y4]"
    by (simp add: formatGameDate_string)
  with assms(2) have "insert_bet.gameDate ins = Some [d1, d2, 0x2D, m1, m2, 0x2D, y1, y2, y3, y4]"
    by simp
  with assms(1) have "bet.gameDate (fst (createBet st newId today created ins))
         = [y1, y2, y3, y4, 0x2D, m1, m2, 0x2D, d1, d2]"
    by (rule createBet_gameDate_reordered)
  with fmt show ?thesis
    by (simp add: createBet_stored)
qed

text \<open>
  C5. The canonical form of a slash-delimited date replaces each \<open>/\<close> by \<open>-\<close> and keeps the
  fields in place, and the persisted \<open>gameDate\<close> is said to be that \<open>DD-MM-YYYY\<close> string.
  For \<open>"26/09/2025"\<close> the canonical form is \<open>"26-09-2025"\<close> and the verification form shows
  \<open>"26-09-2025"\<close>, but \<open>createBet\<close> stores \<open>"2025-09-26"\<close>: it reorders the fields, against
  the comment on the column in the schema (\<open>DD-MM-YYYY format\<close>) and the comment that opens
  its own date handling (\<open>Ensure gameDate is a string in DD-MM-YYYY format\<close>).
\<close>

theorem createBet_gameDate_not_canonical:
  "formatGameDate (DateString (str ''26/09/2025'')) = str ''26-09-2025''
   \<and> getDisplayDate failing_format
         ((example_form ''Flamengo'' ''Flamengo'')\<lparr> ocr_data.gameDate := DateString (str ''26/09/2025'') \<rparr>)
       = Some (str ''26-09-2025'')
   \<and> bet.gameDate (fst (createBet empty_storage (str ''1'') example_today example_today
         (example_insert (Some (formatGameDate (DateString (str ''26/09/2025'')))))))
       = str ''2025-09-26''
   \<and> bet.gameDate (fst (createBet empty_storage (str ''1'') example_today example_today
         (example_insert (Some (formatGameDate (DateString (str ''26/09/2025'')))))))
       \<noteq> str ''26-09-2025''
   \<and> bets (snd (createBet empty_storage (str ''1'') example_today example_today
         (example_insert (Some (formatGameDate (DateString (str ''26/09/2025'')))))))
        (str ''1'')
       = Some (fst (createBet empty_storage (str ''1'') example_today example_today
           (example_insert (Some (formatGameDate (DateString (str ''26/09/2025'')))))))"
proof (intro conjI)
  show "formatGameDate (DateString (str ''26/09/2025'')) = str ''26-09-2025''"
    by (simp add: formatGameDate_string str_def)
  show "getDisplayDate failing_format
         ((example_form ''Flamengo'' ''Flamengo'')\<lparr> ocr_data.gameDate := DateString (str ''26/09/2025'') \<rparr>)
       = Some (str ''26-09-2025'')"
    by (simp add: getDisplayDate_def example_form_def includesChar_def replaceAll_char str_def)
  have stored: "bet.gameDate (fst (createBet empty_storage (str ''1'') example_today example_today
         (example_insert (Some (formatGameDate (DateString (str ''26/09/2025'')))))))
       = str ''2025-09-26''"
    by (simp add: formatGameDate_string createBet_def Let_def includesChar_def
          matches_dd_mm_yyyy_def split_def element_text_def str_def example_insert_def isDigit_def)
  then show "bet.gameDate (fst (createBet empty_storage (str ''1'') example_today example_today
         (example_insert (Some (formatGameDate (DateString (str ''26/09/2025'')))))))
       = str ''2025-09-26''" .
  from stored show "bet.gameDate (fst (createBet empty_storage (str ''1'') example_today example_today
         (example_insert (Some (formatGameDate (DateString (str ''26/09/2025'')))))))
       \<noteq> str ''26-09-2025''"
    by (simp add: str_def)
  show "bets (snd (createBet empty_storage (str ''1'') example_today example_today
         (example_insert (Some (formatGameDate (DateString (str ''26/09/2025'')))))))
        (str ''1'')
       = Some (fst (createBet empty_storage (str ''1'') example_today example_today
           (example_insert (Some (formatGameDate (DateString (str ''26/09/2025'')))))))"
    by (rule createBet_stored)
qed

text \<open>The same date given to \<open>createBet\<close> with its slashes is stored in the same way.\<close>

lemma createBet_slash_date_directly:
  "bet.gameDate (fst (createBet empty_storage (str ''1'') example_today example_today
         (example_insert (Some (str ''26/09/2025'')))))
       = str ''2025-09-26''"
  by (simp add: createBet_def Let_def includesChar_def replaceAll_char
        matches_dd_mm_yyyy_def split_def element_text_def str_def example_insert_def isDigit_def)

subsection \<open>Team consistency\<close>

lemma trim_ws_prefix:
  assumes "\<forall>c\<in>set w. isWhiteSpace c"
  shows "trim (w @ s) = trim s"
  using assms by (simp add: trim_def dropWhile_append2)

lemma trim_ws_suffix:
  assumes "\<forall>c\<in>set w. isWhiteSpace c"
  shows "trim (s @ w) = trim s"
proof (cases "\<forall>c\<in>set s. isWhiteSpace c")
  case True
  with assms have "dropWhile isWhiteSpace (s @ w) = []" "dropWhile isWhiteSpace s = []"
    by (simp_all add: dropWhile_eq_Nil_conv)
  then show ?thesis by (simp only: trim_def)
next
  case False
  then have "dropWhile isWhiteSpace (s @ w) = dropWhile isWhiteSpace s @ w"
    by (metis dropWhile_append1)
  moreover have "dropWhile isWhiteSpace (rev w @ ys) = dropWhile isWhiteSpace ys" for ys
    using assms by (intro dropWhile_append2) simp
  ultimately show ?thesis
    by (simp only: trim_def rev_append)
qed

lemma trim_padded:
  assumes "\<forall>c\<in>set (w1 @ w2). isWhiteSpace c"
  shows "trim (w1 @ s @ w2) = trim s"
  using assms trim_ws_prefix [of w1 "s @ w2"] trim_ws_suffix [of w2 s] by simp

lemma teams_not_in_validateSingleBet:
  "''teams'' \<notin> set (validateSingleBet N ''betA'' b)" "''teams'' \<notin> set (validateSingleBet N ''betB'' b)"
  by (simp_all add: validateSingleBet_def)

lemma teams_error_iff:
  "''teams'' \<in> set (validateForm_errors N L fd) \<longleftrightarrow>
     normalizeTeam L (single_bet_ocr.teamA (betA fd)) \<noteq> normalizeTeam L (single_bet_ocr.teamA (betB fd))
     \<or> normalizeTeam L (single_bet_ocr.teamB (betA fd)) \<noteq> normalizeTeam L (single_bet_ocr.teamB (betB fd))"
  by (simp add: validateForm_errors_def teams_not_in_validateSingleBet)

text \<open>
  C6. The team check of \<open>validateForm\<close>, which runs before a pair is confirmed, compares
  the names after \<^verbatim>\<open>trim\<close> and \<^verbatim>\<open>toLowerCase\<close>: the error \<open>teams\<close> is absent exactly when
  both normalised names agree. Whitespace around a name never matters, so names equal up
  to letter case and surrounding whitespace pass. A mismatch sets the error \<open>teams\<close>, a
  key of its own, and the form is then rejected. The witness is the pair
  "Flamengo" / "flamengo " (passes) and the pair "Flamengo" / "Palmeiras" (rejected with
  \<open>teams\<close> as the only error).
\<close>

theorem validateForm_team_consistency:
  "(''teams'' \<notin> set (validateForm_errors N L fd) \<longleftrightarrow>
      L (trim (single_bet_ocr.teamA (betA fd))) = L (trim (single_bet_ocr.teamA (betB fd)))
      \<and> L (trim (single_bet_ocr.teamB (betA fd))) = L (trim (single_bet_ocr.teamB (betB fd))))
   \<and> ((\<forall>c\<in>set (w1 @ w2 @ w3 @ w4 @ w5 @ w6 @ w7 @ w8). isWhiteSpace c)
        \<and> single_bet_ocr.teamA (betA fd) = w1 @ x @ w2
        \<and> single_bet_ocr.teamA (betB fd) = w3 @ y @ w4
        \<and> single_bet_ocr.teamB (betA fd) = w5 @ u @ w6
        \<and> single_bet_ocr.teamB (betB fd) = w7 @ v @ w8
        \<and> L (trim x) = L (trim y) \<and> L (trim u) = L (trim v)
       \<longrightarrow> ''teams'' \<notin> set (validateForm_errors N L fd))
   \<and> (''teams'' \<in> set (validateForm_errors N L fd) \<longrightarrow> \<not> validateForm N L fd)"
proof (intro conjI impI)
  show "''teams'' \<notin> set (validateForm_errors N L fd) \<longleftrightarrow>
      L (trim (single_bet_ocr.teamA (betA fd))) = L (trim (single_bet_ocr.teamA (betB fd)))
      \<and> L (trim (single_bet_ocr.teamB (betA fd))) = L (trim (single_bet_ocr.teamB (betB fd)))"
    by (simp add: teams_error_iff normalizeTeam_def)
next
  assume h: "(\<forall>c\<in>set (w1 @ w2 @ w3 @ w4 @ w5 @ w6 @ w7 @ w8). isWhiteSpace c)
        \<and> single_bet_ocr.teamA (betA fd) = w1 @ x @ w2
        \<and> single_bet_ocr.teamA (betB fd) = w3 @ y @ w4
        \<and> single_bet_ocr.teamB (betA fd) = w5 @ u @ w6
        \<and> single_bet_ocr.teamB (betB fd) = w7 @ v @ w8
        \<and> L (trim x) = L (trim y) \<and> L (trim u) = L (trim v)"
  then have "\<forall>c\<in>set (w1 @ w2). isWhiteSpace c" "\<forall>c\<in>set (w3 @ w4). isWhiteSpace c"
            "\<forall>c\<in>set (w5 @ w6). isWhiteSpace c" "\<forall>c\<in>set (w7 @ w8). isWhiteSpace c"
    by auto
  then have "trim (w1 @ x @ w2) = trim x" "trim (w3 @ y @ w4) = trim y"
            "trim (w5 @ u @ w6) = trim u" "trim (w7 @ v @ w8) = trim v"
    using trim_padded [of w1 w2 x] trim_padded [of w3 w4 y]
          trim_padded [of w5 w6 u] trim_padded [of w7 w8 v]
    by blast+
  with h show "''teams'' \<notin> set (validateForm_errors N L fd)"
    by (simp add: teams_error_iff normalizeTeam_def)
next
  assume "''teams'' \<in> set (validateForm_errors N L fd)"
  then show "\<not> validateForm N L fd"
    by (auto simp add: validateForm_def)
qed

theorem validateForm_team_consistency_witness:
  "''teams'' \<notin> set (validateForm_errors Number_decimal toLowerCase_ascii
                       (example_form ''Flamengo'' ''flamengo ''))
   \<and> validateForm Number_decimal toLowerCase_ascii (example_form ''Flamengo'' ''flamengo '')
   \<and> validateForm_errors Number_decimal toLowerCase_ascii (example_form ''Flamengo'' ''Palmeiras'')
       = [''teams'']
   \<and> \<not> validateForm Number_decimal toLowerCase_ascii (example_form ''Flamengo'' ''Palmeiras'')"
  using validateForm_team_consistency
          [of Number_decimal toLowerCase_ascii "example_form ''Flamengo'' ''flamengo ''"
              "[]" "[]" "[]" "str '' ''" "[]" "[]" "[]" "[]"
              "str ''Flamengo''" "str ''flamengo''" "str ''Santos''" "str ''Santos''"]
  by (simp add: validateForm_def validateForm_errors_def validateSingleBet_def
        example_form_def example_ocr_bet_def Number_decimal_def digit_val_def
        normalizeTeam_def trim_def toLowerCase_ascii_def isWhiteSpace_def isNaN_def str_def)

text \<open>
  The helper \<open>validateBetPair\<close> of the shared schema is not part of the verification form
  and is called nowhere in the sources at hand. It compares the stored names as they are.
\<close>

lemma validateBetPair_teams:
  "SameTeamsRequired \<in> set (validateBetPair x y)
     \<longleftrightarrow> bet.teamA x \<noteq> bet.teamA y \<or> bet.teamB x \<noteq> bet.teamB y"
  by (simp add: validateBetPair_def)

lemma validateBetPair_case_sensitive:
  "validateBetPair (example_leg PosA Pending ''100'' ''250'')
                   ((example_leg PosB Pending ''100'' ''250'')\<lparr> bet.teamA := str ''flamengo '' \<rparr>)
     = [SameTeamsRequired]"
  by (simp add: validateBetPair_def example_leg_def str_def)

subsection \<open>Number normalisation\<close>

lemma sanitizeNumber_Nil: "sanitizeNumber [] = []"
  by (simp add: sanitizeNumber_def replaceAll_def)

lemma sanitizeNumber_Cons:
  "sanitizeNumber (c # s) =
     (if c = 0xA0 \<or> c = 0x2009 \<or> c = 0x202F \<or> isWhiteSpace c then []
      else if c = 0x2C then str ''.'' else [c]) @ sanitizeNumber s"
  by (simp add: sanitizeNumber_def replaceAll_def)

lemma sanitizeNumber_append: "sanitizeNumber (a @ b) = sanitizeNumber a @ sanitizeNumber b"
  by (simp add: sanitizeNumber_def replaceAll_def)

lemma dot_not_whitespace: "\<not> isWhiteSpace 0x2E"
  by (simp add: isWhiteSpace_def)

lemma sanitizeNumber_twice: "sanitizeNumber (sanitizeNumber x) = sanitizeNumber x"
proof (induction x)
  case Nil
  show ?case by (simp add: sanitizeNumber_Nil)
next
  case (Cons c x)
  then show ?case
    by (simp add: sanitizeNumber_Cons sanitizeNumber_append sanitizeNumber_Nil str_def
          dot_not_whitespace)
qed

lemma extra_classes_whitespace: "isWhiteSpace 0xA0" "isWhiteSpace 0x2009" "isWhiteSpace 0x202F"
  by (simp_all add: isWhiteSpace_def)

lemma sanitizeNumber_fixed:
  assumes "\<forall>c\<in>set s. \<not> isWhiteSpace c \<and> c \<noteq> 0x2C"
  shows "sanitizeNumber s = s"
  using assms
proof (induction s)
  case Nil
  show ?case by (simp add: sanitizeNumber_Nil)
next
  case (Cons c s)
  then have "\<not> isWhiteSpace c" "c \<noteq> 0x2C" "sanitizeNumber s = s"
    by simp_all
  moreover from \<open>\<not> isWhiteSpace c\<close> have "c \<noteq> 0xA0" "c \<noteq> 0x2009" "c \<noteq> 0x202F"
    using extra_classes_whitespace by auto
  ultimately show ?case
    by (simp add: sanitizeNumber_Cons)
qed

lemma sanitizeNumber_output:
  "\<forall>c\<in>set (sanitizeNumber s). \<not> isWhiteSpace c \<and> c \<noteq> 0x2C"
proof (induction s)
  case Nil
  show ?case by (simp add: sanitizeNumber_Nil)
next
  case (Cons c s)
  then show ?case
    by (simp add: sanitizeNumber_Cons str_def dot_not_whitespace)
qed

text \<open>
  C7. \<open>sanitizeNumber\<close> is idempotent. A string without whitespace and without a comma is
  returned unchanged, and every result is such a string. \<open>sanitizeNumber("1 234,56")\<close> is
  \<open>"1234.56"\<close>. The witness also strips a no-break space, a thin space and a narrow
  no-break space.
\<close>

theorem sanitizeNumber_idempotent:
  "sanitizeNumber (sanitizeNumber x) = sanitizeNumber x
   \<and> ((\<forall>c\<in>set x. \<not> isWhiteSpace c \<and> c \<noteq> 0x2C) \<longrightarrow> sanitizeNumber x = x)
   \<and> (\<forall>c\<in>set (sanitizeNumber x). \<not> isWhiteSpace c \<and> c \<noteq> 0x2C)
   \<and> sanitizeNumber (str ''1 234,56'') = str ''1234.56''"
proof (intro conjI impI)
  show "sanitizeNumber (sanitizeNumber x) = sanitizeNumber x"
    by (rule sanitizeNumber_twice)
  show "sanitizeNumber x = x" if "\<forall>c\<in>set x. \<not> isWhiteSpace c \<and> c \<noteq> 0x2C"
    using that by (rule sanitizeNumber_fixed)
  show "\<forall>c\<in>set (sanitizeNumber x). \<not> isWhiteSpace c \<and> c \<noteq> 0x2C"
    by (rule sanitizeNumber_output)
  show "sanitizeNumber (str ''1 234,56'') = str ''1234.56''"
    by (simp add: sanitizeNumber_Cons sanitizeNumber_Nil str_def isWhiteSpace_def)
qed

theorem sanitizeNumber_idempotent_witness:
  "sanitizeNumber (str ''1234.56'') = str ''1234.56''
   \<and> sanitizeNumber (sanitizeNumber [0x31, 0xA0, 0x32, 0x2009, 0x33, 0x202F, 0x34, 0x2C, 0x35, 0x20])
       = str ''1234.5''"
  using sanitizeNumber_idempotent [of "str ''1234.56''"]
        sanitizeNumber_idempotent [of "[0x31, 0xA0, 0x32, 0x2009, 0x33, 0x202F, 0x34, 0x2C, 0x35, 0x20]"]
  by (simp add: sanitizeNumber_Cons sanitizeNumber_Nil str_def isWhiteSpace_def)

subsection \<open>Conversion of the AI response\<close>

text \<open>
  C8. The conversion is claimed never to throw on a missing field. It throws
  \<^verbatim>\<open>TypeError\<close> on the empty object and on any object without \<open>betA\<close> or \<open>betB\<close>,
  because it reads the fields of these two objects without testing that they exist; it
  also throws when \<open>totalProfitPercentage\<close> is a number, which has no \<^verbatim>\<open>replace\<close>.
\<close>

theorem convertClaudeToOCRFormat_throws:
  "convertClaudeToOCRFormat (JObject []) = None
   \<and> convertClaudeToOCRFormat
        (JObject [(str ''teamA'', JString (str ''Flamengo'')), (str ''betA'', JObject [])]) = None
   \<and> convertClaudeToOCRFormat
        (JObject [(str ''betA'', JObject []), (str ''betB'', JObject []),
                  (str ''totalProfitPercentage'', JNumber (Num (29 / 20)))]) = None"
  by (simp add: convertClaudeToOCRFormat_def convertSingleBet_def or_default_def str_def)

text \<open>
  With both bets present the leaf fields are defaulted as claimed, and the conversion
  returns whenever the two bets are present and the two fields it calls \<^verbatim>\<open>replace\<close> on
  are strings or absent.
\<close>

lemma convertClaudeToOCRFormat_defaults:
  "convertClaudeToOCRFormat (JObject [(str ''betA'', JObject []), (str ''betB'', JObject [])])
     = Some \<lparr> betA = \<lparr> single_bet_ocr.bettingHouse = JString [], single_bet_ocr.teamA = JString [],
                        single_bet_ocr.teamB = JString [], single_bet_ocr.betType = JString [],
                        single_bet_ocr.odds = JString (str ''0''),
                        single_bet_ocr.stake = JString (str ''0''),
                        single_bet_ocr.profit = JString (str ''0'') \<rparr>,
              betB = \<lparr> single_bet_ocr.bettingHouse = JString [], single_bet_ocr.teamA = JString [],
                        single_bet_ocr.teamB = JString [], single_bet_ocr.betType = JString [],
                        single_bet_ocr.odds = JString (str ''0''),
                        single_bet_ocr.stake = JString (str ''0''),
                        single_bet_ocr.profit = JString (str ''0'') \<rparr>,
              ocr_data.gameDate = DateString [],
              ocr_data.gameTime = Some (JString (str ''00:00'')),
              gameDateFormatted = None, gameDateTime = None,
              ocr_data.sport = JString [], ocr_data.league = JString [],
              totalProfitPercentage = str ''0'' \<rparr>"
  by (simp add: convertClaudeToOCRFormat_def convertSingleBet_def or_default_def str_def
        replaceFirst_def)

lemma get_prop_defined:
  "v \<noteq> JUndefined \<Longrightarrow> v \<noteq> JNull \<Longrightarrow> \<exists>r. get_prop v k = Some r"
  by (cases v) simp_all

lemma convertSingleBet_defined:
  "v \<noteq> JUndefined \<Longrightarrow> v \<noteq> JNull \<Longrightarrow> \<exists>r. convertSingleBet v a b = Some r"
  by (cases v) (simp_all add: convertSingleBet_def)

lemma convertClaudeToOCRFormat_returns:
  assumes "map_of kvs (str ''betA'') = Some a" "a \<noteq> JNull" "a \<noteq> JUndefined"
      and "map_of kvs (str ''betB'') = Some b" "b \<noteq> JNull" "b \<noteq> JUndefined"
      and "map_of kvs (str ''totalProfitPercentage'') = None
           \<or> (\<exists>s. map_of kvs (str ''totalProfitPercentage'') = Some (JString s))"
      and "map_of kvs (str ''gameDate'') = None
           \<or> (\<exists>s. map_of kvs (str ''gameDate'') = Some (JString s))"
  shows "\<exists>r. convertClaudeToOCRFormat (JObject kvs) = Some r"
proof -
  obtain ra where ra: "convertSingleBet a
      (case map_of kvs (str ''teamA'') of None \<Rightarrow> JUndefined | Some v \<Rightarrow> v)
      (case map_of kvs (str ''teamB'') of None \<Rightarrow> JUndefined | Some v \<Rightarrow> v) = Some ra"
    using convertSingleBet_defined [OF assms(3,2)] by blast
  obtain rb where rb: "convertSingleBet b
      (case map_of kvs (str ''teamA'') of None \<Rightarrow> JUndefined | Some v \<Rightarrow> v)
      (case map_of kvs (str ''teamB'') of None \<Rightarrow> JUndefined | Some v \<Rightarrow> v) = Some rb"
    using convertSingleBet_defined [OF assms(6,5)] by blast
  from assms(7,8) show ?thesis
    by (auto simp add: convertClaudeToOCRFormat_def assms(1,4) ra rb or_default_def)
qed

end
